theory Spec2Isabelle
  imports Complex_Main
begin

section \<open>The forecast backend (forecast_backend.py)\<close>

text \<open>
  A shallow embedding of the forecast pipeline of \<^verbatim>\<open>forecast_backend.py\<close>:
  \<^verbatim>\<open>map_category_to_aqi\<close>, \<^verbatim>\<open>generate_forecast_features\<close> and the
  \<^verbatim>\<open>/forecast\<close> handler.

  Conventions of the embedding.
  \<^item> Python floats (and the ints mixed with them) are real numbers: the arithmetic of the
    source is taken exactly, IEEE rounding and NaN are not modelled.
  \<^item> A \<^verbatim>\<open>datetime\<close> is the number of microseconds since 1970-01-01T00:00:00 on the
    naive local time line; the type ranges over the years 1 to 9999 and an addition that
    leaves the range raises \<^verbatim>\<open>OverflowError\<close>.
  \<^item> An exception is the left summand of a sum type, carrying the text of \<^verbatim>\<open>str(e)\<close>.
  \<^item> The ambient effects of the handler (the global \<^verbatim>\<open>model\<close>, numpy's global
    random generator, the wall clock) are the fields of the record \<open>runtime\<close>.
\<close>

subsection \<open>Request and response values\<close>

text \<open>A parsed JSON value; the \<^verbatim>\<open>type\<close> field of a request may hold any of them.\<close>

datatype json =
    JNull
  | JBool bool
  | JNum real
  | JStr string
  | JArr "json list"
  | JObj "(string \<times> json) list"

text \<open>
  The body of a request, \<^verbatim>\<open>request.json\<close>: a dictionary in which every key is
  optional. The four readings are numbers when present.
\<close>

record request =
  r_pm25 :: "real option"
  r_temperature :: "real option"
  r_humidity :: "real option"
  r_wind_speed :: "real option"
  r_type :: "json option"

text \<open>\<^verbatim>\<open>d.get(key, default)\<close> on an optional entry.\<close>

definition dict_get :: "'a option \<Rightarrow> 'a \<Rightarrow> 'a" where
  "dict_get entry dflt = (case entry of None \<Rightarrow> dflt | Some v \<Rightarrow> v)"

text \<open>One element of \<^verbatim>\<open>forecasts\<close>; the fields are the keys of the dictionary.\<close>

record forecast_point =
  time :: int
  aqi :: int
  hour :: "int option"
  day :: "string option"
  date :: "string option"
  category :: int
  pm25 :: real

text \<open>The dictionary returned on success.\<close>

record response =
  status :: string
  forecast_type :: json
  forecasts :: "forecast_point list"
  aqi_range :: "int list"
  model_used :: string

text \<open>
  What the handler returns: \<open>Inl (message, code)\<close> for
  \<^verbatim>\<open>jsonify({'error': message}), code\<close>, and \<open>Inr\<close> for the success dictionary.
\<close>

type_synonym reply = "(string \<times> nat) + response"

subsection \<open>The ambient runtime\<close>

text \<open>
  The loaded classifier, used as \<^verbatim>\<open>int(model.predict(np.array([features]))[0])\<close>:
  it either raises or yields the class label of the one row.
\<close>

type_synonym classifier = "real list \<Rightarrow> string + int"

text \<open>
  \<open>model\<close> is the global of the same name (\<open>None\<close> when loading failed);
  \<open>entropy k\<close> is the raw value the global random generator produces at its \<open>k\<close>-th
  use and \<open>now k\<close> is what the \<open>k\<close>-th call of \<^verbatim>\<open>datetime.now()\<close> reads. The handler
  uses each once per completed iteration, so \<open>k\<close> is the iteration count.
\<close>

record runtime =
  model :: "classifier option"
  entropy :: "nat \<Rightarrow> nat"
  now :: "nat \<Rightarrow> int"

subsection \<open>Library functions the source calls\<close>

text \<open>
  \<^verbatim>\<open>np.random.randint(low, high)\<close>: an integer of the half-open interval
  \<open>[low, high)\<close>, selected by the raw value; \<^verbatim>\<open>ValueError\<close> when the interval is empty.
\<close>

definition randint :: "nat \<Rightarrow> int \<Rightarrow> int \<Rightarrow> string + int" where
  "randint raw low high =
     (if high \<le> low then Inl ''low >= high''
      else Inr (low + int (raw mod nat (high - low))))"

text \<open>\<^verbatim>\<open>range(0, stop, step)\<close> for a positive step, as the list of its elements.\<close>

definition range_py :: "int \<Rightarrow> int \<Rightarrow> int list" where
  "range_py stop step = map (\<lambda>k. int k * step) [0 ..< nat ((stop + step - 1) div step)]"

text \<open>\<^verbatim>\<open>round(x, 1)\<close>: the nearest multiple of one tenth, a tie going to the even one.\<close>

definition rint :: "real \<Rightarrow> int" where
  "rint x =
     (let f = \<lfloor>x\<rfloor>; d = x - of_int f
      in if d < 1 / 2 then f else if 1 / 2 < d then f + 1
         else if even f then f else f + 1)"

definition round1 :: "real \<Rightarrow> real" where
  "round1 x = of_int (rint (x * 10)) / 10"

text \<open>The range of \<^verbatim>\<open>datetime\<close> and \<^verbatim>\<open>datetime + timedelta(hours=h)\<close>.\<close>

definition datetime_min :: int where
  "datetime_min = - 62135596800000000"

definition datetime_max :: int where
  "datetime_max = 253402300799999999"

definition timedelta_hours :: "int \<Rightarrow> int" where
  "timedelta_hours h = h * 3600000000"

definition datetime_add :: "int \<Rightarrow> int \<Rightarrow> string + int" where
  "datetime_add t delta =
     (if t + delta < datetime_min \<or> datetime_max < t + delta
      then Inl ''date value out of range''
      else Inr (t + delta))"

text \<open>\<^verbatim>\<open>.hour\<close>, and the day number (days since 1970-01-01) behind the calendar fields.\<close>

definition hour_of :: "int \<Rightarrow> int" where
  "hour_of t = (t div 3600000000) mod 24"

definition day_number :: "int \<Rightarrow> int" where
  "day_number t = t div 86400000000"

text \<open>
  The proleptic Gregorian date (year, month, day) of a day number, by the usual
  computation on 400-year eras that start on 1 March.
\<close>

definition civil_from_days :: "int \<Rightarrow> int \<times> int \<times> int" where
  "civil_from_days z0 =
     (let z = z0 + 719468;
          era = z div 146097;
          doe = z - era * 146097;
          yoe = (doe - doe div 1460 + doe div 36524 - doe div 146096) div 365;
          y = yoe + era * 400;
          doy = doe - (365 * yoe + yoe div 4 - yoe div 100);
          mp = (5 * doy + 2) div 153;
          d = doy - (153 * mp + 2) div 5 + 1;
          m = (if mp < 10 then mp + 3 else mp - 9)
      in (if m \<le> 2 then y + 1 else y, m, d))"

definition weekday_names :: "string list" where
  "weekday_names = [''Mon'', ''Tue'', ''Wed'', ''Thu'', ''Fri'', ''Sat'', ''Sun'']"

definition month_names :: "string list" where
  "month_names = [''Jan'', ''Feb'', ''Mar'', ''Apr'', ''May'', ''Jun'',
                  ''Jul'', ''Aug'', ''Sep'', ''Oct'', ''Nov'', ''Dec'']"

definition two_digits :: "int \<Rightarrow> string" where
  "two_digits n = [''0123456789'' ! nat (n div 10), ''0123456789'' ! nat (n mod 10)]"

text \<open>\<^verbatim>\<open>strftime('%a')\<close> and \<^verbatim>\<open>strftime('%b %d')\<close> in the C locale.\<close>

definition strftime_a :: "int \<Rightarrow> string" where
  "strftime_a t = weekday_names ! nat ((day_number t + 3) mod 7)"

definition strftime_b_d :: "int \<Rightarrow> string" where
  "strftime_b_d t =
     (case civil_from_days (day_number t) of
        (y, m, d) \<Rightarrow> month_names ! nat (m - 1) @ '' '' @ two_digits d)"

subsection \<open>Category to AQI\<close>

definition CATEGORY_TO_AQI :: "int \<rightharpoonup> int \<times> int" where
  "CATEGORY_TO_AQI =
     [0 \<mapsto> (100, 200),
      1 \<mapsto> (200, 350),
      2 \<mapsto> (350, 500),
      3 \<mapsto> (500, 700),
      4 \<mapsto> (700, 900),
      5 \<mapsto> (900, 1000)]"

definition map_category_to_aqi :: "nat \<Rightarrow> int \<Rightarrow> string + int" where
  "map_category_to_aqi raw label =
     (case dict_get (CATEGORY_TO_AQI label) (100, 200) of
        (min_aqi, max_aqi) \<Rightarrow> randint raw min_aqi (max_aqi + 1))"

subsection \<open>Feature synthesis\<close>

text \<open>The two local cycles of \<^verbatim>\<open>generate_forecast_features\<close>, as functions of the offset.\<close>

definition hour_factor :: "int \<Rightarrow> real" where
  "hour_factor hours_ahead = sin (of_int hours_ahead / 12 * pi) * 0.15"

definition temp_cycle :: "int \<Rightarrow> real" where
  "temp_cycle hours_ahead = cos (of_int hours_ahead / 12 * pi) * 3"

definition generate_forecast_features ::
  "real \<Rightarrow> real \<Rightarrow> real \<Rightarrow> real \<Rightarrow> int \<Rightarrow> real list" where
  "generate_forecast_features base_pm25 base_temp base_humidity base_wind hours_ahead =
     (let pm25_variation = hour_factor hours_ahead * base_pm25 * 0.2;
          pm25_value = base_pm25 * (1 + hour_factor hours_ahead) + pm25_variation;
          temp = base_temp + temp_cycle hours_ahead;
          humidity = base_humidity - (temp_cycle hours_ahead * 2);
          wind_cycle = sin (of_int hours_ahead / 8 * pi) * base_wind * 0.2;
          wind = base_wind + wind_cycle
      in [max 0 pm25_value,
          max (- 20) (min 50 temp),
          max 0 (min 100 humidity),
          max 0.1 wind])"

subsection \<open>The forecast handler\<close>

text \<open>The branch on \<^verbatim>\<open>forecast_type\<close>: \<open>(hours_to_predict, interval_hours)\<close>.\<close>

definition schedule :: "json \<Rightarrow> int \<times> int" where
  "schedule ftype =
     (if ftype = JStr ''hourly'' then (48, 1)
      else if ftype = JStr ''daily'' then (7 * 24, 24)
      else (14 * 24, 24))"

text \<open>
  The body of the loop for the offset \<open>i\<close>, in its \<open>k\<close>-th iteration; an exception of
  the classifier or of the date arithmetic leaves it.
\<close>

definition forecast_step ::
  "runtime \<Rightarrow> classifier \<Rightarrow> real \<Rightarrow> real \<Rightarrow> real \<Rightarrow> real \<Rightarrow> int \<Rightarrow> nat \<Rightarrow> int
     \<Rightarrow> string + forecast_point" where
  "forecast_step rt m current_pm25 current_temp current_humidity current_wind
       interval_hours k i =
     (let features = generate_forecast_features
                       current_pm25 current_temp current_humidity current_wind i
      in (case m features of
            Inl e \<Rightarrow> Inl e
          | Inr label \<Rightarrow>
              (case map_category_to_aqi (entropy rt k) label of
                 Inl e \<Rightarrow> Inl e
               | Inr aqi_value \<Rightarrow>
                   (case datetime_add (now rt k) (timedelta_hours i) of
                      Inl e \<Rightarrow> Inl e
                    | Inr forecast_time \<Rightarrow>
                        Inr (forecast_point.make
                               forecast_time
                               aqi_value
                               (if interval_hours = 1
                                then Some (hour_of forecast_time) else None)
                               (if interval_hours = 24
                                then Some (strftime_a forecast_time) else None)
                               (if interval_hours = 24
                                then Some (strftime_b_d forecast_time) else None)
                               label
                               (round1 (features ! 0)))))))"

text \<open>The loop over the offsets, appending one point per iteration.\<close>

fun forecast_loop ::
  "runtime \<Rightarrow> classifier \<Rightarrow> real \<Rightarrow> real \<Rightarrow> real \<Rightarrow> real \<Rightarrow> int \<Rightarrow> nat \<Rightarrow> int list
     \<Rightarrow> string + forecast_point list" where
  "forecast_loop rt m current_pm25 current_temp current_humidity current_wind
       interval_hours k [] = Inr []"
| "forecast_loop rt m current_pm25 current_temp current_humidity current_wind
       interval_hours k (i # offsets) =
     (case forecast_step rt m current_pm25 current_temp current_humidity current_wind
             interval_hours k i of
        Inl e \<Rightarrow> Inl e
      | Inr point \<Rightarrow>
          (case forecast_loop rt m current_pm25 current_temp current_humidity current_wind
                  interval_hours (Suc k) offsets of
             Inl e \<Rightarrow> Inl e
           | Inr rest \<Rightarrow> Inr (point # rest)))"

definition forecast :: "runtime \<Rightarrow> request \<Rightarrow> reply" where
  "forecast rt data =
     (case model rt of
        None \<Rightarrow> Inl (''Model not loaded'', 500)
      | Some m \<Rightarrow>
          (let current_pm25 = dict_get (r_pm25 data) 150;
               current_temp = dict_get (r_temperature data) 20;
               current_humidity = dict_get (r_humidity data) 60;
               current_wind = dict_get (r_wind_speed data) 5;
               ftype = dict_get (r_type data) (JStr ''hourly'')
           in (case schedule ftype of (hours_to_predict, interval_hours) \<Rightarrow>
                (case forecast_loop rt m
                        current_pm25 current_temp current_humidity current_wind
                        interval_hours 0 (range_py hours_to_predict interval_hours) of
                   Inl e \<Rightarrow> Inl (e, 400)
                 | Inr points \<Rightarrow>
                     Inr (response.make ''success'' ftype points [100, 1000]
                            ''xgboost_pm25_classifier'')))))"

subsection \<open>Notions used in the statements\<close>

text \<open>
  The schedule, the offsets and the features the handler computes for a request, named so
  that statements can speak of them; and the forecasts of a reply (none for an error).
\<close>

definition request_schedule :: "request \<Rightarrow> int \<times> int" where
  "request_schedule data = schedule (dict_get (r_type data) (JStr ''hourly''))"

definition request_offsets :: "request \<Rightarrow> int list" where
  "request_offsets data =
     range_py (fst (request_schedule data)) (snd (request_schedule data))"

definition request_features :: "request \<Rightarrow> int \<Rightarrow> real list" where
  "request_features data i =
     generate_forecast_features
       (dict_get (r_pm25 data) 150) (dict_get (r_temperature data) 20)
       (dict_get (r_humidity data) 60) (dict_get (r_wind_speed data) 5) i"

definition the_forecasts :: "reply \<Rightarrow> forecast_point list" where
  "the_forecasts r = (case r of Inl e \<Rightarrow> [] | Inr resp \<Rightarrow> forecasts resp)"

text \<open>
  Iteration \<open>k\<close> of a request raises nothing: the classifier answers on the features
  of the offset and the time stamp stays a \<^verbatim>\<open>datetime\<close>. A request is served when the
  classifier is loaded and every iteration of its schedule is such.
\<close>

definition step_ready :: "runtime \<Rightarrow> classifier \<Rightarrow> request \<Rightarrow> nat \<Rightarrow> bool" where
  "step_ready rt m data k =
     (let i = int k * snd (request_schedule data);
          t = now rt k + timedelta_hours i
      in (case m (request_features data i) of Inl e \<Rightarrow> False | Inr label \<Rightarrow> True)
         \<and> datetime_min \<le> t \<and> t \<le> datetime_max)"

definition serves :: "runtime \<Rightarrow> request \<Rightarrow> bool" where
  "serves rt data =
     (case model rt of
        None \<Rightarrow> False
      | Some m \<Rightarrow> list_all (step_ready rt m data) [0 ..< length (request_offsets data)])"

subsection \<open>The feature synthesizer in the words of the specification\<close>

text \<open>
  Section 4.1 of the specification, written down independently of the source: the
  snapshot, the three cycles, the two kinds of clamping and the projected 4-tuple.
\<close>

record snapshot =
  s_pm25 :: real
  s_temperature :: real
  s_humidity :: real
  s_windSpeed :: real

definition hourFactor :: "nat \<Rightarrow> real" where
  "hourFactor offsetHours = sin (real offsetHours / 12 * pi) * 0.15"

definition tempCycle :: "nat \<Rightarrow> real" where
  "tempCycle offsetHours = cos (real offsetHours / 12 * pi) * 3"

definition windCycle :: "snapshot \<Rightarrow> nat \<Rightarrow> real" where
  "windCycle base offsetHours = sin (real offsetHours / 8 * pi) * s_windSpeed base * 0.2"

definition clamp_least :: "real \<Rightarrow> real \<Rightarrow> real" where
  "clamp_least lo x = (if x < lo then lo else x)"

definition clamp_between :: "real \<Rightarrow> real \<Rightarrow> real \<Rightarrow> real" where
  "clamp_between lo hi x = (if x < lo then lo else if hi < x then hi else x)"

definition synthesize :: "snapshot \<Rightarrow> nat \<Rightarrow> real \<times> real \<times> real \<times> real" where
  "synthesize base offsetHours =
     (clamp_least 0
        (s_pm25 base * (1 + hourFactor offsetHours) + hourFactor offsetHours * s_pm25 base * 0.2),
      clamp_between (- 20) 50 (s_temperature base + tempCycle offsetHours),
      clamp_between 0 100 (s_humidity base - tempCycle offsetHours * 2),
      clamp_least 0.1 (s_windSpeed base + windCycle base offsetHours))"

subsection \<open>Concrete runtimes and requests\<close>

text \<open>
  A runtime whose clock starts at 2026-11-04T09:30:00 and advances by 250 microseconds
  from one reading to the next, with a classifier that always answers 2; variants whose
  classifier answers 7, raises, or was never loaded.
\<close>

definition ticking_runtime :: runtime where
  "ticking_runtime =
     runtime.make (Some (\<lambda>features. Inr 2)) (\<lambda>k. 37 * k + 5)
       (\<lambda>k. 1793784600000000 + 250 * int k)"

definition offscale_runtime :: runtime where
  "offscale_runtime =
     runtime.make (Some (\<lambda>features. Inr 7)) (\<lambda>k. 37 * k + 5)
       (\<lambda>k. 1793784600000000 + 250 * int k)"

definition failing_runtime :: runtime where
  "failing_runtime =
     runtime.make (Some (\<lambda>features. Inl ''predict failed'')) (\<lambda>k. 37 * k + 5)
       (\<lambda>k. 1793784600000000 + 250 * int k)"

definition unloaded_runtime :: runtime where
  "unloaded_runtime =
     runtime.make None (\<lambda>k. 37 * k + 5) (\<lambda>k. 1793784600000000 + 250 * int k)"

definition example_request :: request where
  "example_request =
     request.make (Some 150) (Some 20) (Some 60) (Some 5) (Some (JStr ''hourly''))"

definition daily_request :: request where
  "daily_request = request.make None None None None (Some (JStr ''daily''))"

definition weekly_request :: request where
  "weekly_request = request.make None None None None (Some (JStr ''weekly''))"

definition numeric_type_request :: request where
  "numeric_type_request = request.make None None None None (Some (JNum 3))"

section \<open>Properties\<close>

subsection \<open>Offsets, the table and the random draw\<close>

lemma range_py_length: "length (range_py stop step) = nat ((stop + step - 1) div step)"
  by (simp add: range_py_def)

lemma range_py_nth: "k < length (range_py stop step) \<Longrightarrow> range_py stop step ! k = int k * step"
  by (simp add: range_py_def)

lemma schedule_cases:
  "schedule ft = (48, 1) \<or> schedule ft = (168, 24) \<or> schedule ft = (336, 24)"
  by (simp add: schedule_def)

lemma length_request_offsets:
  "length (request_offsets data) =
     nat (fst (request_schedule data) div snd (request_schedule data))"
  using schedule_cases [of "dict_get (r_type data) (JStr ''hourly'')"]
  by (auto simp: request_offsets_def request_schedule_def range_py_length)

lemma request_offsets_nth:
  "k < length (request_offsets data) \<Longrightarrow>
     request_offsets data ! k = int k * snd (request_schedule data)"
  by (simp add: request_offsets_def range_py_nth)

lemma category_table:
  "dict_get (CATEGORY_TO_AQI c) (100, 200) =
     (if c = 0 then (100, 200) else if c = 1 then (200, 350)
      else if c = 2 then (350, 500) else if c = 3 then (500, 700)
      else if c = 4 then (700, 900) else if c = 5 then (900, 1000) else (100, 200))"
  by (simp add: CATEGORY_TO_AQI_def dict_get_def)

lemma randint_bounds:
  assumes "low < high"
  shows "\<exists>a. randint raw low high = Inr a \<and> low \<le> a \<and> a < high"
proof -
  have "0 < nat (high - low)" using assms by simp
  then have "raw mod nat (high - low) < nat (high - low)" by simp
  then have "int (raw mod nat (high - low)) < high - low" using assms by linarith
  then show ?thesis using assms by (simp add: randint_def)
qed

lemma map_category_to_aqi_table:
  "\<exists>a. map_category_to_aqi raw c = Inr a \<and>
       fst (dict_get (CATEGORY_TO_AQI c) (100, 200)) \<le> a \<and>
       a \<le> snd (dict_get (CATEGORY_TO_AQI c) (100, 200))"
proof -
  obtain lo hi where t: "dict_get (CATEGORY_TO_AQI c) (100, 200) = (lo, hi)"
    by (cases "dict_get (CATEGORY_TO_AQI c) (100, 200)")
  then have "lo < hi + 1" by (auto simp: category_table split: if_splits)
  from randint_bounds [OF this, of raw] t show ?thesis
    by (auto simp: map_category_to_aqi_def)
qed

subsection \<open>One iteration and the loop\<close>

lemma forecast_step_InrD:
  assumes "forecast_step rt m a b c d iv k i = Inr p"
  shows "m (generate_forecast_features a b c d i) = Inr (category p)"
    and "map_category_to_aqi (entropy rt k) (category p) = Inr (aqi p)"
    and "time p = now rt k + i * 3600000000"
    and "hour p = (if iv = 1 then Some (hour_of (time p)) else None)"
    and "day p = (if iv = 24 then Some (strftime_a (time p)) else None)"
    and "date p = (if iv = 24 then Some (strftime_b_d (time p)) else None)"
    and "pm25 p = round1 (generate_forecast_features a b c d i ! 0)"
  using assms
  by (auto simp: forecast_step_def Let_def datetime_add_def timedelta_hours_def
        forecast_point.defs split: sum.splits if_splits)

lemma forecast_step_succeeds:
  assumes "m (generate_forecast_features a b c d i) = Inr label"
    and "datetime_min \<le> now rt k + timedelta_hours i"
    and "now rt k + timedelta_hours i \<le> datetime_max"
  shows "\<exists>p. forecast_step rt m a b c d iv k i = Inr p"
proof -
  obtain v where "map_category_to_aqi (entropy rt k) label = Inr v"
    using map_category_to_aqi_table by blast
  then show ?thesis using assms
    by (simp add: forecast_step_def Let_def datetime_add_def)
qed

lemma forecast_step_Inl_classifier:
  "m (generate_forecast_features a b c d i) = Inl e \<Longrightarrow>
     forecast_step rt m a b c d iv k i = Inl e"
  by (simp add: forecast_step_def Let_def)

lemma forecast_loop_length:
  "forecast_loop rt m a b c d iv k offs = Inr ps \<Longrightarrow> length ps = length offs"
  by (induction offs arbitrary: k ps) (auto split: sum.splits)

lemma forecast_loop_nth:
  "forecast_loop rt m a b c d iv k offs = Inr ps \<Longrightarrow> j < length offs \<Longrightarrow>
     forecast_step rt m a b c d iv (k + j) (offs ! j) = Inr (ps ! j)"
proof (induction offs arbitrary: k ps j)
  case Nil
  then show ?case by simp
next
  case (Cons i offs)
  from Cons.prems(1) obtain p rest where
    p: "forecast_step rt m a b c d iv k i = Inr p" and
    rest: "forecast_loop rt m a b c d iv (Suc k) offs = Inr rest" and
    ps: "ps = p # rest"
    by (auto split: sum.splits)
  show ?case
  proof (cases j)
    case 0
    then show ?thesis using p ps by simp
  next
    case (Suc j')
    then have "j' < length offs" using Cons.prems(2) by simp
    from Cons.IH [OF rest this] show ?thesis using Suc ps by simp
  qed
qed

lemma forecast_loop_succeeds:
  "(\<And>j. j < length offs \<Longrightarrow> \<exists>p. forecast_step rt m a b c d iv (k + j) (offs ! j) = Inr p)
     \<Longrightarrow> \<exists>ps. forecast_loop rt m a b c d iv k offs = Inr ps"
proof (induction offs arbitrary: k)
  case Nil
  then show ?case by simp
next
  case (Cons i offs)
  from Cons.prems [of 0] obtain p where p: "forecast_step rt m a b c d iv k i = Inr p"
    by auto
  have "\<exists>ps. forecast_loop rt m a b c d iv (Suc k) offs = Inr ps"
  proof (rule Cons.IH)
    fix j assume "j < length offs"
    then show "\<exists>p. forecast_step rt m a b c d iv (Suc k + j) (offs ! j) = Inr p"
      using Cons.prems [of "Suc j"] by simp
  qed
  then show ?case using p by auto
qed

lemma forecast_loop_fails:
  "j < length offs \<Longrightarrow> forecast_step rt m a b c d iv (k + j) (offs ! j) = Inl e \<Longrightarrow>
     \<exists>e'. forecast_loop rt m a b c d iv k offs = Inl e'"
proof (cases "forecast_loop rt m a b c d iv k offs")
  case (Inl e')
  then show ?thesis by simp
next
  case (Inr ps)
  assume "j < length offs" "forecast_step rt m a b c d iv (k + j) (offs ! j) = Inl e"
  with forecast_loop_nth [OF Inr, of j] show ?thesis by simp
qed

subsection \<open>The handler\<close>

lemma forecast_unloaded:
  "model rt = None \<Longrightarrow> forecast rt data = Inl (''Model not loaded'', 500)"
  by (simp add: forecast_def)

lemma forecast_loaded:
  "model rt = Some m \<Longrightarrow>
     forecast rt data =
       (case forecast_loop rt m (dict_get (r_pm25 data) 150) (dict_get (r_temperature data) 20)
               (dict_get (r_humidity data) 60) (dict_get (r_wind_speed data) 5)
               (snd (request_schedule data)) 0 (request_offsets data) of
          Inl e \<Rightarrow> Inl (e, 400)
        | Inr points \<Rightarrow>
            Inr (response.make ''success'' (dict_get (r_type data) (JStr ''hourly'')) points
                   [100, 1000] ''xgboost_pm25_classifier''))"
  by (simp add: forecast_def Let_def request_schedule_def request_offsets_def
        split: prod.splits)

lemma forecast_InrD:
  assumes "forecast rt data = Inr resp"
  shows "\<exists>m. model rt = Some m \<and>
           forecast_loop rt m (dict_get (r_pm25 data) 150) (dict_get (r_temperature data) 20)
               (dict_get (r_humidity data) 60) (dict_get (r_wind_speed data) 5)
               (snd (request_schedule data)) 0 (request_offsets data) = Inr (forecasts resp)"
    and "status resp = ''success''"
    and "forecast_type resp = dict_get (r_type data) (JStr ''hourly'')"
    and "aqi_range resp = [100, 1000]"
    and "model_used resp = ''xgboost_pm25_classifier''"
proof -
  from assms obtain m where m: "model rt = Some m"
    by (cases "model rt") (auto simp: forecast_unloaded)
  from assms show "\<exists>m. model rt = Some m \<and>
           forecast_loop rt m (dict_get (r_pm25 data) 150) (dict_get (r_temperature data) 20)
               (dict_get (r_humidity data) 60) (dict_get (r_wind_speed data) 5)
               (snd (request_schedule data)) 0 (request_offsets data) = Inr (forecasts resp)"
    and "status resp = ''success''"
    and "forecast_type resp = dict_get (r_type data) (JStr ''hourly'')"
    and "aqi_range resp = [100, 1000]"
    and "model_used resp = ''xgboost_pm25_classifier''"
    unfolding forecast_loaded [OF m] using m
    by (auto simp: response.defs split: sum.splits)
qed

lemma forecast_step_at:
  assumes "forecast rt data = Inr resp" and "k < length (forecasts resp)"
  shows "\<exists>m. model rt = Some m \<and>
     forecast_step rt m (dict_get (r_pm25 data) 150) (dict_get (r_temperature data) 20)
        (dict_get (r_humidity data) 60) (dict_get (r_wind_speed data) 5)
        (snd (request_schedule data)) k (int k * snd (request_schedule data))
       = Inr (forecasts resp ! k)"
proof -
  from forecast_InrD(1) [OF assms(1)] obtain m where m: "model rt = Some m"
    and loop: "forecast_loop rt m (dict_get (r_pm25 data) 150) (dict_get (r_temperature data) 20)
               (dict_get (r_humidity data) 60) (dict_get (r_wind_speed data) 5)
               (snd (request_schedule data)) 0 (request_offsets data) = Inr (forecasts resp)"
    by blast
  from forecast_loop_length [OF loop] assms(2) have k: "k < length (request_offsets data)"
    by simp
  from forecast_loop_nth [OF loop k] request_offsets_nth [OF k] m show ?thesis by simp
qed

lemma forecast_length_offsets:
  assumes "forecast rt data = Inr resp"
  shows "length (forecasts resp) = length (request_offsets data)"
  using forecast_InrD(1) [OF assms] forecast_loop_length by blast

text \<open>A request is served exactly when the handler returns the success dictionary.\<close>

lemma serves_forecast:
  assumes "serves rt data"
  shows "\<exists>resp. forecast rt data = Inr resp"
proof -
  from assms obtain m where m: "model rt = Some m"
    and ready: "list_all (step_ready rt m data) [0 ..< length (request_offsets data)]"
    by (auto simp: serves_def split: option.splits)
  have "\<exists>ps. forecast_loop rt m (dict_get (r_pm25 data) 150) (dict_get (r_temperature data) 20)
               (dict_get (r_humidity data) 60) (dict_get (r_wind_speed data) 5)
               (snd (request_schedule data)) 0 (request_offsets data) = Inr ps"
  proof (rule forecast_loop_succeeds)
    fix j assume j: "j < length (request_offsets data)"
    with ready have "step_ready rt m data j" by (simp add: list_all_iff)
    then show "\<exists>p. forecast_step rt m (dict_get (r_pm25 data) 150)
        (dict_get (r_temperature data) 20) (dict_get (r_humidity data) 60)
        (dict_get (r_wind_speed data) 5) (snd (request_schedule data)) (0 + j)
        (request_offsets data ! j) = Inr p"
      using forecast_step_succeeds [of m "dict_get (r_pm25 data) 150"
          "dict_get (r_temperature data) 20" "dict_get (r_humidity data) 60"
          "dict_get (r_wind_speed data) 5" "int j * snd (request_schedule data)" _ rt j
          "snd (request_schedule data)"]
        request_offsets_nth [OF j]
      by (auto simp: step_ready_def Let_def request_features_def split: sum.splits)
  qed
  then show ?thesis by (auto simp: forecast_loaded [OF m])
qed

lemma forecast_serves:
  assumes "forecast rt data = Inr resp"
  shows "serves rt data"
proof -
  from forecast_InrD(1) [OF assms] obtain m where m: "model rt = Some m" by blast
  have "step_ready rt m data k" if k: "k < length (request_offsets data)" for k
  proof -
    from k forecast_length_offsets [OF assms] have "k < length (forecasts resp)" by simp
    from forecast_step_at [OF assms this] m
    have "forecast_step rt m (dict_get (r_pm25 data) 150) (dict_get (r_temperature data) 20)
        (dict_get (r_humidity data) 60) (dict_get (r_wind_speed data) 5)
        (snd (request_schedule data)) k (int k * snd (request_schedule data))
       = Inr (forecasts resp ! k)" by simp
    then show ?thesis
      by (auto simp: step_ready_def Let_def request_features_def forecast_step_def
            datetime_add_def split: sum.splits if_splits)
  qed
  then show ?thesis using m by (simp add: serves_def list_all_iff)
qed

subsection \<open>The concrete runtimes and requests\<close>

lemma schedule_interval:
  "snd (request_schedule data) = 1 \<or> snd (request_schedule data) = 24"
  using schedule_cases [of "dict_get (r_type data) (JStr ''hourly'')"]
  by (auto simp: request_schedule_def)

lemma length_request_offsets_cases:
  "(request_schedule data = (48, 1) \<and> length (request_offsets data) = 48) \<or>
   (request_schedule data = (168, 24) \<and> length (request_offsets data) = 7) \<or>
   (request_schedule data = (336, 24) \<and> length (request_offsets data) = 14)"
  using schedule_cases [of "dict_get (r_type data) (JStr ''hourly'')"]
  by (auto simp: request_schedule_def request_offsets_def range_py_length)

lemma steady_serves:
  assumes "model rt = Some m"
    and "\<And>fs. \<exists>c. m fs = Inr c"
    and "\<And>k. now rt k = 1793784600000000 + 250 * int k"
  shows "serves rt data"
proof -
  have "step_ready rt m data k" if k: "k < length (request_offsets data)" for k
  proof -
    obtain c where c: "m (request_features data (int k * snd (request_schedule data))) = Inr c"
      using assms(2) by blast
    from k length_request_offsets_cases [of data]
    have "(snd (request_schedule data) = 1 \<or> snd (request_schedule data) = 24) \<and> k < 48"
      by auto
    then show ?thesis using c
      by (auto simp: step_ready_def Let_def assms(3) timedelta_hours_def
            datetime_min_def datetime_max_def)
  qed
  then show ?thesis using assms(1) by (simp add: serves_def list_all_iff)
qed

lemma ticking_serves: "serves ticking_runtime data"
  by (rule steady_serves [where m = "\<lambda>features. Inr 2"])
     (simp_all add: ticking_runtime_def runtime.defs)

lemma offscale_serves: "serves offscale_runtime data"
  by (rule steady_serves [where m = "\<lambda>features. Inr 7"])
     (simp_all add: offscale_runtime_def runtime.defs)

lemma forecast_time_at:
  assumes "forecast rt data = Inr resp" and "k < length (forecasts resp)"
  shows "time (forecasts resp ! k) =
           now rt k + int k * snd (request_schedule data) * 3600000000"
proof -
  from forecast_step_at [OF assms] obtain m where
    "forecast_step rt m (dict_get (r_pm25 data) 150) (dict_get (r_temperature data) 20)
        (dict_get (r_humidity data) 60) (dict_get (r_wind_speed data) 5)
        (snd (request_schedule data)) k (int k * snd (request_schedule data))
       = Inr (forecasts resp ! k)" by blast
  from forecast_step_InrD(3) [OF this] show ?thesis by simp
qed

lemma round1_150: "round1 150 = 150"
  by (simp add: round1_def rint_def Let_def)

lemma features_zero: "generate_forecast_features a b c d 0 = [max 0 a, max (- 20) (min 50 (b + 3)), max 0 (min 100 (c - 6)), max 0.1 d]"
  by (simp add: generate_forecast_features_def hour_factor_def temp_cycle_def Let_def)

lemma request_schedule_simps:
  "request_schedule example_request = (48, 1)"
  "request_schedule daily_request = (168, 24)"
  "request_schedule weekly_request = (336, 24)"
  "request_schedule numeric_type_request = (336, 24)"
  by (simp_all add: request_schedule_def schedule_def dict_get_def example_request_def
        daily_request_def weekly_request_def numeric_type_request_def request.defs)

lemma request_offsets_lengths:
  "length (request_offsets example_request) = 48"
  "length (request_offsets daily_request) = 7"
  "length (request_offsets weekly_request) = 14"
  "length (request_offsets numeric_type_request) = 14"
  by (simp_all add: length_request_offsets request_schedule_simps)

subsection \<open>Time stamps (claim C1)\<close>

text \<open>
  Claim C1 as stated fails: the handler calls \<^verbatim>\<open>datetime.now()\<close> inside the loop, once
  per point, so the reference time is read again for every point. On a clock that advances
  by 250 microseconds between two readings, the daily forecast has its second point
  24 hours and 250 microseconds after the first, not 24 hours after the first reading.
\<close>

theorem forecast_timestamps_counterexample:
  "length (the_forecasts (forecast ticking_runtime daily_request)) = 7 \<and>
   snd (request_schedule daily_request) = 24 \<and>
   time (the_forecasts (forecast ticking_runtime daily_request) ! 0) = now ticking_runtime 0 \<and>
   time (the_forecasts (forecast ticking_runtime daily_request) ! 1)
     - time (the_forecasts (forecast ticking_runtime daily_request) ! 0) = 86400000250 \<and>
   time (the_forecasts (forecast ticking_runtime daily_request) ! 1)
     \<noteq> now ticking_runtime 0 + 1 * 24 * 3600000000"
proof -
  obtain resp where resp: "forecast ticking_runtime daily_request = Inr resp"
    using serves_forecast [OF ticking_serves] by blast
  have len: "length (forecasts resp) = 7"
    using forecast_length_offsets [OF resp] by (simp add: request_offsets_lengths)
  have t0: "time (forecasts resp ! 0) = 1793784600000000"
    using forecast_time_at [OF resp, of 0] len
    by (simp add: ticking_runtime_def runtime.defs)
  have t1: "time (forecasts resp ! 1) = 1793871000000250"
    using forecast_time_at [OF resp, of 1] len
    by (simp add: ticking_runtime_def runtime.defs request_schedule_simps)
  have fs: "the_forecasts (forecast ticking_runtime daily_request) = forecasts resp"
    by (simp add: resp the_forecasts_def)
  have n0: "now ticking_runtime 0 = 1793784600000000"
    by (simp add: ticking_runtime_def runtime.defs)
  show ?thesis unfolding fs n0 using len t0 t1
    by (simp add: request_schedule_simps)
qed

text \<open>
  Claim C1, amended: in every returned forecast, the time stamp of point \<open>k\<close> is the
  clock reading taken while point \<open>k\<close> is assembled plus \<open>k\<close> times the interval; two
  consecutive time stamps differ by the interval plus the time that passed between the two
  readings. Hence the time stamps are \<open>now + k * interval\<close> when the clock reads the same
  value throughout the request, and they are strictly increasing when the clock never
  goes backwards. Hours are 3600000000 microseconds.
\<close>

theorem forecast_timestamps:
  assumes "forecast rt data = Inr resp"
  shows "(\<forall>k<length (forecasts resp).
            time (forecasts resp ! k) =
              now rt k + int k * snd (request_schedule data) * 3600000000) \<and>
         (\<forall>k. Suc k < length (forecasts resp) \<longrightarrow>
            time (forecasts resp ! Suc k) - time (forecasts resp ! k) =
              snd (request_schedule data) * 3600000000 + (now rt (Suc k) - now rt k)) \<and>
         ((\<forall>k. now rt k = now rt 0) \<longrightarrow>
            (\<forall>k<length (forecasts resp).
               time (forecasts resp ! k) =
                 now rt 0 + int k * snd (request_schedule data) * 3600000000)) \<and>
         ((\<forall>k. now rt k \<le> now rt (Suc k)) \<longrightarrow>
            (\<forall>k. Suc k < length (forecasts resp) \<longrightarrow>
               time (forecasts resp ! k) < time (forecasts resp ! Suc k)))"
proof -
  have at: "time (forecasts resp ! k) =
              now rt k + int k * snd (request_schedule data) * 3600000000"
    if "k < length (forecasts resp)" for k
    using forecast_time_at [OF assms that] .
  have step: "time (forecasts resp ! Suc k) - time (forecasts resp ! k) =
              snd (request_schedule data) * 3600000000 + (now rt (Suc k) - now rt k)"
    if "Suc k < length (forecasts resp)" for k
  proof -
    from that have "k < length (forecasts resp)" by simp
    from at [OF this] at [OF that] show ?thesis by (simp add: algebra_simps)
  qed
  have pos: "0 < snd (request_schedule data)"
    using schedule_interval [of data] by auto
  have incr: "time (forecasts resp ! k) < time (forecasts resp ! Suc k)"
    if "Suc k < length (forecasts resp)" and "\<forall>k. now rt k \<le> now rt (Suc k)" for k
  proof -
    from that(2) have "now rt k \<le> now rt (Suc k)" by blast
    with step [OF that(1)] pos show ?thesis by simp
  qed
  show ?thesis using at step incr by simp
qed

text \<open>The amended claim C1 on the daily forecast of the ticking runtime.\<close>

theorem forecast_timestamps_witness:
  "\<exists>resp. forecast ticking_runtime daily_request = Inr resp \<and>
     time (forecasts resp ! 0) = 1793784600000000 \<and>
     time (forecasts resp ! 1) - time (forecasts resp ! 0) = 86400000250"
proof -
  obtain resp where resp: "forecast ticking_runtime daily_request = Inr resp"
    using serves_forecast [OF ticking_serves] by blast
  have len: "length (forecasts resp) = 7"
    using forecast_length_offsets [OF resp] by (simp add: request_offsets_lengths)
  from forecast_timestamps [OF resp] len
  have "time (forecasts resp ! 0) = now ticking_runtime 0"
    and "time (forecasts resp ! Suc 0) - time (forecasts resp ! 0) =
           snd (request_schedule daily_request) * 3600000000
             + (now ticking_runtime (Suc 0) - now ticking_runtime 0)"
    by simp_all
  then show ?thesis using resp
    by (simp add: request_schedule_simps ticking_runtime_def runtime.defs)
qed

subsection \<open>Length of the series (claim C2)\<close>

text \<open>
  Claim C2: every request that is served (the classifier is loaded and answers on every
  point, see \<open>serves_forecast\<close> and \<open>forecast_serves\<close>) returns a forecast sequence of
  exactly horizon / interval points: 48 for hourly, 7 for daily and 14 for extended.
\<close>

theorem forecast_length:
  assumes "serves rt data"
  shows "\<exists>resp. forecast rt data = Inr resp \<and>
     int (length (forecasts resp)) =
       fst (request_schedule data) div snd (request_schedule data) \<and>
     (forecast_type resp = JStr ''hourly'' \<longrightarrow>
        request_schedule data = (48, 1) \<and> length (forecasts resp) = 48) \<and>
     (forecast_type resp = JStr ''daily'' \<longrightarrow>
        request_schedule data = (168, 24) \<and> length (forecasts resp) = 7) \<and>
     (forecast_type resp = JStr ''extended'' \<longrightarrow>
        request_schedule data = (336, 24) \<and> length (forecasts resp) = 14)"
proof -
  obtain resp where resp: "forecast rt data = Inr resp"
    using serves_forecast [OF assms] by blast
  have len: "length (forecasts resp) = length (request_offsets data)"
    by (rule forecast_length_offsets [OF resp])
  have ft: "forecast_type resp = dict_get (r_type data) (JStr ''hourly'')"
    by (rule forecast_InrD(3) [OF resp])
  have "int (length (forecasts resp)) =
       fst (request_schedule data) div snd (request_schedule data)"
    using length_request_offsets_cases [of data] len by auto
  moreover have "forecast_type resp = JStr ''hourly'' \<longrightarrow>
        request_schedule data = (48, 1) \<and> length (forecasts resp) = 48"
    using len ft by (simp add: length_request_offsets request_schedule_def schedule_def)
  moreover have "forecast_type resp = JStr ''daily'' \<longrightarrow>
        request_schedule data = (168, 24) \<and> length (forecasts resp) = 7"
    using len ft by (simp add: length_request_offsets request_schedule_def schedule_def)
  moreover have "forecast_type resp = JStr ''extended'' \<longrightarrow>
        request_schedule data = (336, 24) \<and> length (forecasts resp) = 14"
    using len ft by (simp add: length_request_offsets request_schedule_def schedule_def)
  ultimately show ?thesis using resp by blast
qed

text \<open>Claim C2 on the hourly and the daily request of the ticking runtime.\<close>

theorem forecast_length_witness:
  "(\<exists>resp. forecast ticking_runtime example_request = Inr resp \<and>
      length (forecasts resp) = 48) \<and>
   (\<exists>resp. forecast ticking_runtime daily_request = Inr resp \<and>
      length (forecasts resp) = 7)"
proof -
  from forecast_length [OF ticking_serves, of example_request]
  obtain r1 where "forecast ticking_runtime example_request = Inr r1"
    and "int (length (forecasts r1)) =
       fst (request_schedule example_request) div snd (request_schedule example_request)"
    by blast
  then have a: "\<exists>resp. forecast ticking_runtime example_request = Inr resp \<and>
      length (forecasts resp) = 48"
    by (simp add: request_schedule_simps)
  from forecast_length [OF ticking_serves, of daily_request]
  obtain r2 where "forecast ticking_runtime daily_request = Inr r2"
    and "int (length (forecasts r2)) =
       fst (request_schedule daily_request) div snd (request_schedule daily_request)"
    by blast
  then have b: "\<exists>resp. forecast ticking_runtime daily_request = Inr resp \<and>
      length (forecasts resp) = 7"
    by (simp add: request_schedule_simps)
  from a b show ?thesis by blast
qed

subsection \<open>Feature synthesis (claim C3)\<close>

text \<open>
  Claim C3: for every base snapshot and every offset \<open>\<ge> 0\<close>, the features the source
  computes are the ordered 4-tuple (pm25, temperature, humidity, windSpeed) of the formulas
  of section 4.1 of the specification. Both sides are functions of the base and the offset
  alone (neither the clock nor the random generator is an argument), so two calls with the
  same arguments give equal vectors. The arithmetic is that of the real numbers.
\<close>

theorem generate_forecast_features_synthesize:
  "generate_forecast_features (s_pm25 base) (s_temperature base) (s_humidity base)
       (s_windSpeed base) (int offsetHours) =
     (case synthesize base offsetHours of (p, t, h, w) \<Rightarrow> [p, t, h, w])"
  by (auto simp: generate_forecast_features_def synthesize_def hour_factor_def
        temp_cycle_def hourFactor_def tempCycle_def windCycle_def clamp_least_def
        clamp_between_def Let_def max_def min_def)

subsection \<open>Category to index (claim C4)\<close>

text \<open>
  Claim C4: for every raw random value, \<open>map_category_to_aqi\<close> returns an integer that
  lies, bounds included, in the range the table gives for a category of 0 to 5, and in the
  fallback range 100 to 200 for every other category.
\<close>

theorem map_category_to_aqi_range:
  "\<exists>a. map_category_to_aqi raw c = Inr a \<and>
     (c = 0 \<longrightarrow> 100 \<le> a \<and> a \<le> 200) \<and>
     (c = 1 \<longrightarrow> 200 \<le> a \<and> a \<le> 350) \<and>
     (c = 2 \<longrightarrow> 350 \<le> a \<and> a \<le> 500) \<and>
     (c = 3 \<longrightarrow> 500 \<le> a \<and> a \<le> 700) \<and>
     (c = 4 \<longrightarrow> 700 \<le> a \<and> a \<le> 900) \<and>
     (c = 5 \<longrightarrow> 900 \<le> a \<and> a \<le> 1000) \<and>
     (c < 0 \<or> 5 < c \<longrightarrow> 100 \<le> a \<and> a \<le> 200)"
  using map_category_to_aqi_table [of raw c]
  by (auto simp: category_table)

text \<open>Claim C4 at category 3 and at the out-of-range category -1.\<close>

theorem map_category_to_aqi_range_witness:
  "(\<exists>a. map_category_to_aqi 12345 3 = Inr a \<and> 500 \<le> a \<and> a \<le> 700) \<and>
   (\<exists>a. map_category_to_aqi 12345 (- 1) = Inr a \<and> 100 \<le> a \<and> a \<le> 200)"
  using map_category_to_aqi_range [of 12345 3] map_category_to_aqi_range [of 12345 "- 1"]
  by simp

end
